theory Spec2Isabelle
  imports Main "HOL-Library.AList" "HOL-Library.Multiset" "HOL-Library.Char_ord"
    "HOL-Library.List_Lexorder"
begin

section \<open>Data model\<close>

text \<open>
  An alias as the extension stores it. The source reads \<open>frequency ?? 0\<close> and
  \<open>description = ''\<close>, so both fields may be missing; a JavaScript number that counts
  runs is an integer here.
\<close>

record Alias =
  aliasName :: string
  command :: string
  frequency :: "int option"
  description :: "string option"

text \<open>
  The tree node \<open>AliasItem\<close> of \<open>extension.ts\<close>. The constructor copies \<open>alias\<close> to
  \<open>data\<close> and \<open>group\<close> to \<open>groupName\<close>; the selector \<open>groupName\<close> stands for both
  \<open>alias.group\<close> and \<open>alias.groupName\<close>.
\<close>

datatype aliasItem =
  AliasItem (label: string) (data: "Alias option") (groupName: string) (remark: string)
    (children: "aliasItem list") (isLeafNode: bool)

datatype error =
  InvalidFormat | DuplicateAlias | AliasNotFound | DuplicateGroup | NoEligibleGroup | EmptyInput

text \<open>
  How a command ends: it ran to its end, the user cancelled a prompt, the tree node
  carried no alias, there was nothing to work on and it returned silently, or a message
  was shown and the command returned early.
\<close>

datatype outcome = Done | Cancelled | NoData | NothingToDo | Failed error

text \<open>What leaves the extension, in the order it happens.\<close>

datatype effect = Update string | SendText string | Refresh

type_synonym memento = "(string \<times> Alias list) list"

record world =
  storeFile :: "string list"
  globalState :: memento
  effects :: "effect list"

section \<open>Helpers that live outside \<open>extension.ts\<close>\<close>

text \<open>
  Modelled from the spec: the constant \<open>SYSTEM_ALIAS\<close> of \<open>constants.ts\<close>, the key of
  the system group. No theorem below depends on its value.
\<close>

definition SYSTEM_ALIAS :: string where
  "SYSTEM_ALIAS = ''system''"

text \<open>
  Modelled from the spec: \<open>isSameAlias\<close> of \<open>utils.ts\<close>. Two aliases are the same alias
  iff \<open>aliasName\<close> and \<open>command\<close> are both equal.
\<close>

definition isSameAlias :: "Alias \<Rightarrow> Alias \<Rightarrow> bool" where
  "isSameAlias a b \<longleftrightarrow> aliasName a = aliasName b \<and> command a = command b"

text \<open>
  Modelled from the spec: \<open>normalizeAliasesToArray\<close> of \<open>utils.ts\<close>. A group that is
  absent reads as the empty sequence.
\<close>

definition normalizeAliasesToArray :: "Alias list option \<Rightarrow> Alias list" where
  "normalizeAliasesToArray v = (case v of None \<Rightarrow> [] | Some xs \<Rightarrow> xs)"

subsection \<open>The alias grammar\<close>

text \<open>
  Modelled from the spec: the white space that the grammar of section 4.1 trims and
  excludes from names and unquoted values.
\<close>

definition is_space :: "char \<Rightarrow> bool" where
  "is_space c \<longleftrightarrow> c = CHR '' '' \<or> c = CHR 0x09 \<or> c = CHR 0x0A \<or> c = CHR 0x0D"

text \<open>Modelled from the spec: trimming leading and trailing white space.\<close>

definition trim :: "string \<Rightarrow> string" where
  "trim s = rev (dropWhile is_space (rev (dropWhile is_space s)))"

text \<open>
  Modelled from the spec: the content of a double-quoted value. A backslash takes the
  next character as it is, so that a double quote after a backslash is part of the
  command; a double quote that no backslash precedes does not belong inside.
\<close>

fun unescape :: "string \<Rightarrow> string option" where
  "unescape [] = Some []"
| "unescape (c # cs) =
     (if c = CHR 0x5C then
        (case cs of
           [] \<Rightarrow> None
         | d # ds \<Rightarrow> (case unescape ds of None \<Rightarrow> None | Some r \<Rightarrow> Some (d # r)))
      else if c = CHR 0x22 then None
      else (case unescape cs of None \<Rightarrow> None | Some r \<Rightarrow> Some (c # r)))"

text \<open>
  Modelled from the spec: the value of an alias statement, which is single-quoted with
  no single quote inside, double-quoted, or a token without white space; the command is
  the value without its enclosing quotes.
\<close>

definition resolveValue :: "string \<Rightarrow> string option" where
  "resolveValue v =
     (if v \<noteq> [] \<and> hd v = CHR 0x27 then
        (if 2 \<le> length v \<and> last v = CHR 0x27 \<and> CHR 0x27 \<notin> set (butlast (tl v))
         then Some (butlast (tl v)) else None)
      else if v \<noteq> [] \<and> hd v = CHR 0x22 then
        (if 2 \<le> length v \<and> last v = CHR 0x22 then unescape (butlast (tl v)) else None)
      else if v \<noteq> [] \<and> (\<forall>c \<in> set v. \<not> is_space c) then Some v
      else None)"

text \<open>
  Modelled from the spec: \<open>resolveAlias\<close> of \<open>utils.ts\<close>. After trimming, the text has
  the form \<open>alias <name>=<value>\<close>: the name is a non-empty run of characters that are
  neither white space nor \<open>=\<close>, the value is single-quoted, double-quoted or an
  unquoted token, and the quotes are stripped. The result has frequency 0 and an empty
  description. No theorem below depends on the details of the grammar.
\<close>

definition resolveAlias :: "string \<Rightarrow> Alias option" where
  "resolveAlias input =
     (let s = trim input in
      if take 6 s = ''alias '' then
        (let rest = drop 6 s;
             name = takeWhile (\<lambda>c. \<not> is_space c \<and> c \<noteq> CHR ''='') rest;
             after = dropWhile (\<lambda>c. \<not> is_space c \<and> c \<noteq> CHR ''='') rest
         in if name \<noteq> [] \<and> after \<noteq> [] \<and> hd after = CHR ''='' then
              (case resolveValue (tl after) of
                 None \<Rightarrow> None
               | Some cmd \<Rightarrow>
                   Some \<lparr>aliasName = name, command = cmd, frequency = Some 0,
                         description = Some []\<rparr>)
            else None)
      else None)"

subsection \<open>The store file\<close>

text \<open>The store file is its sequence of lines.\<close>

text \<open>
  Modelled from the spec: \<open>getAliases\<close> of \<open>aliases.ts\<close>, the line scanner. It yields
  the alias of every line that matches the grammar, in file order, and skips the rest.
\<close>

definition getAliases :: "string list \<Rightarrow> Alias list" where
  "getAliases file = List.map_filter resolveAlias file"

text \<open>The statement the source builds with \<open>`alias ${aliasName}='${command}'`\<close>.\<close>

definition formatAlias :: "string \<Rightarrow> string \<Rightarrow> string" where
  "formatAlias name cmd = ''alias '' @ name @ [CHR ''='', CHR 0x27] @ cmd @ [CHR 0x27]"

text \<open>
  Modelled from the spec: \<open>appendAliasToStoreFile\<close> of \<open>aliases.ts\<close>, the writer's
  \<open>append\<close>. The caller passes the text typed after \<open>alias\<close>; the line appended is the
  statement the caller has just resolved.
\<close>

definition appendAliasToStoreFile :: "string list \<Rightarrow> string \<Rightarrow> string list" where
  "appendAliasToStoreFile file content = file @ [''alias '' @ content]"

text \<open>
  Modelled from the spec: the identity predicate of the writer, whether the alias parsed
  from a line has the given identity. A line that is no alias statement has none.
\<close>

definition lineHasIdentity :: "Alias \<Rightarrow> string \<Rightarrow> bool" where
  "lineHasIdentity old line =
     (case resolveAlias line of None \<Rightarrow> False | Some a \<Rightarrow> isSameAlias old a)"

text \<open>
  Modelled from the spec: \<open>deleteAliases\<close> of \<open>aliases.ts\<close>, the writer's
  \<open>deleteMatching\<close>. With an alias it removes every line of that identity, without one
  every alias line; all other lines stay.
\<close>

definition deleteAliases :: "string list \<Rightarrow> Alias option \<Rightarrow> string list" where
  "deleteAliases file target =
     (case target of
        None \<Rightarrow> filter (\<lambda>line. resolveAlias line = None) file
      | Some a \<Rightarrow> filter (\<lambda>line. \<not> lineHasIdentity a line) file)"

text \<open>
  Modelled from the spec: the search of \<open>replaceOne\<close>. It finds the first line whose
  parsed alias has the old identity and replaces that line's text with the new
  statement, at the same position; \<open>None\<close> when no line matches.
\<close>

fun replaceFirst :: "Alias \<Rightarrow> string \<Rightarrow> string list \<Rightarrow> string list option" where
  "replaceFirst old new [] = None"
| "replaceFirst old new (l # ls) =
     (if lineHasIdentity old l then Some (new # ls)
      else (case replaceFirst old new ls of None \<Rightarrow> None | Some ls' \<Rightarrow> Some (l # ls')))"

text \<open>
  Modelled from the spec: the writer's \<open>replaceOne(file, oldIdentity, newStatement)\<close>,
  which returns the new content of the file or fails with \<open>AliasNotFound\<close> if no line
  matches; nothing is written then.
\<close>

definition replaceOne :: "string list \<Rightarrow> Alias \<Rightarrow> string \<Rightarrow> error + string list" where
  "replaceOne file old new =
     (case replaceFirst old new file of None \<Rightarrow> Inl AliasNotFound | Some file' \<Rightarrow> Inr file')"

text \<open>
  Modelled from the spec: \<open>renameAliases\<close> of \<open>aliases.ts\<close>, which the spec describes
  as \<open>replaceOne\<close> with the statement of the new name and command.
\<close>

definition renameAliases :: "string list \<Rightarrow> Alias \<Rightarrow> string \<times> string \<Rightarrow> error + string list" where
  "renameAliases file old new = replaceOne file old (formatAlias (fst new) (snd new))"

text \<open>
  Modelled from the spec: \<open>formatUnaliasCommand\<close> of \<open>utils.ts\<close>, one command naming
  all alias names, separated by spaces.
\<close>

definition formatUnaliasCommand :: "Alias list \<Rightarrow> string" where
  "formatUnaliasCommand aliases = ''unalias'' @ concat (map (\<lambda>a. CHR '' '' # aliasName a) aliases)"

subsection \<open>The group store\<close>

text \<open>
  Modelled from the spec: the host's key-value store (\<open>vscode.Memento\<close>). Keys are in
  order and distinct; a value is a sequence of alias records kept by value (the store
  serialises what it is given), so an alias held by a tree node is a value of its own.
  \<open>update\<close> with a value replaces the entry where it is or adds it at the end;
  \<open>update\<close> with \<open>undefined\<close> removes the entry. \<open>keys()\<close> lists the keys in order.
\<close>

definition keys :: "world \<Rightarrow> string list" where
  "keys w = map fst (globalState w)"

text \<open>
  Modelled from the spec: \<open>get(key)\<close> of the host's store, undefined for a missing key.
\<close>

definition get :: "string \<Rightarrow> world \<Rightarrow> Alias list option" where
  "get k w = map_of (globalState w) k"

text \<open>
  Modelled from the spec: \<open>update(key, value)\<close> of the host's store. Every call is
  recorded among the effects.
\<close>

definition update :: "string \<Rightarrow> Alias list option \<Rightarrow> world \<Rightarrow> world" where
  "update k v w =
     w\<lparr>globalState :=
         (case v of None \<Rightarrow> AList.delete k (globalState w)
          | Some xs \<Rightarrow> AList.update k xs (globalState w)),
       effects := effects w @ [Update k]\<rparr>"

text \<open>
  \<open>executeCommandInTerminal\<close> sends the text to the terminal; \<open>refresh\<close> fires the
  event that makes the host ask for the tree again.
\<close>

definition executeCommandInTerminal :: "string \<Rightarrow> world \<Rightarrow> world" where
  "executeCommandInTerminal cmd w = w\<lparr>effects := effects w @ [SendText cmd]\<rparr>"

definition refresh :: "world \<Rightarrow> world" where
  "refresh w = w\<lparr>effects := effects w @ [Refresh]\<rparr>"

section \<open>JavaScript built-ins\<close>





text \<open>
  Assigning to a field of the object that \<open>Array.prototype.find\<close> returned changes the
  first element of the array that satisfies the predicate, where it stands.
\<close>

fun mutateFound :: "('a \<Rightarrow> bool) \<Rightarrow> ('a \<Rightarrow> 'a) \<Rightarrow> 'a list \<Rightarrow> 'a list" where
  "mutateFound P f [] = []"
| "mutateFound P f (x # xs) = (if P x then f x # xs else x # mutateFound P f xs)"

section \<open>The commands of \<open>AliasView\<close>\<close>

text \<open>
  Each command takes what the user typed or picked (\<open>None\<close> when the prompt was
  cancelled) and the world, and returns how it ended and the new world.
\<close>

text \<open>
  The body that \<open>setDescription\<close>, \<open>renameAliasName\<close> and \<open>renameAliasCommand\<close> run for
  every key: read the group, find the first alias that is the same as the node's, assign
  to it and write the group back; a group without such an alias is not written.
\<close>

definition updateSameAlias :: "Alias \<Rightarrow> (Alias \<Rightarrow> Alias) \<Rightarrow> string \<Rightarrow> world \<Rightarrow> world" where
  "updateSameAlias a f key w =
     (let aliases = normalizeAliasesToArray (get key w) in
      case find (isSameAlias a) aliases of
        None \<Rightarrow> w
      | Some sameAlias \<Rightarrow> update key (Some (mutateFound (isSameAlias a) f aliases)) w)"


definition addAlias :: "string option \<Rightarrow> world \<Rightarrow> outcome \<times> world" where
  "addAlias input w =
     (case input of
        None \<Rightarrow> (Cancelled, w)
      | Some text \<Rightarrow>
          if text = [] then (Failed EmptyInput, w)
          else
            (case resolveAlias (''alias '' @ text) of
               None \<Rightarrow> (Failed InvalidFormat, w)
             | Some resolvedAlias \<Rightarrow>
                 if aliasName resolvedAlias \<in> set (map aliasName (getAliases (storeFile w)))
                 then (Failed DuplicateAlias, w)
                 else
                   (let w1 = w\<lparr>storeFile := appendAliasToStoreFile (storeFile w) text\<rparr>;
                        aliases = normalizeAliasesToArray (get SYSTEM_ALIAS w1);
                        w2 = update SYSTEM_ALIAS
                               (Some (aliases @
                                  [resolvedAlias\<lparr>frequency := Some 0, description := Some []\<rparr>]))
                               w1;
                        w3 = executeCommandInTerminal (''alias '' @ text) w2
                    in (Done, refresh w3))))"

definition deleteAllAlias :: "string option \<Rightarrow> world \<Rightarrow> outcome \<times> world" where
  "deleteAllAlias confirm w =
     (case confirm of
        None \<Rightarrow> (Cancelled, w)
      | Some text \<Rightarrow>
          (let aliases = getAliases (storeFile w) in
           if aliases = [] then (NothingToDo, w)
           else
             (let w1 = executeCommandInTerminal (formatUnaliasCommand aliases) w;
                  w2 = w1\<lparr>storeFile := deleteAliases (storeFile w1) None\<rparr>;
                  w3 = fold (\<lambda>key. update key (Some [])) (keys w2) w2
              in (Done, refresh w3))))"

definition deleteAlias :: "aliasItem \<Rightarrow> world \<Rightarrow> outcome \<times> world" where
  "deleteAlias item w =
     (case data item of
        None \<Rightarrow> (NoData, w)
      | Some a \<Rightarrow>
          (let w1 = w\<lparr>storeFile := deleteAliases (storeFile w) (Some a)\<rparr>;
               w2 = fold (\<lambda>key v.
                      update key
                        (Some (filter (\<lambda>aliasItem. \<not> isSameAlias a aliasItem)
                                 (normalizeAliasesToArray (get key v)))) v)
                      (keys w1) w1;
               w3 = executeCommandInTerminal (formatUnaliasCommand [a]) w2
           in (Done, refresh w3)))"

text \<open>
  \<open>renameAliases\<close> fails when the file has no line of the old identity; the failure
  ends the command before any group is written.
\<close>

definition renameAliasName :: "aliasItem \<Rightarrow> string option \<Rightarrow> world \<Rightarrow> outcome \<times> world" where
  "renameAliasName item input w =
     (case data item of
        None \<Rightarrow> (NoData, w)
      | Some a \<Rightarrow>
          (case input of
             None \<Rightarrow> (Cancelled, w)
           | Some name \<Rightarrow>
               if name = [] then (Failed EmptyInput, w)
               else
                 (case renameAliases (storeFile w) a (name, command a) of
                    Inl e \<Rightarrow> (Failed e, w)
                  | Inr file' \<Rightarrow>
                      (let w1 = w\<lparr>storeFile := file'\<rparr>;
                           w2 = fold (updateSameAlias a (\<lambda>r. r\<lparr>aliasName := name\<rparr>)) (keys w1) w1;
                           w3 = executeCommandInTerminal (formatAlias name (command a)) w2
                       in (Done, refresh w3)))))"

definition renameAliasCommand :: "aliasItem \<Rightarrow> string option \<Rightarrow> world \<Rightarrow> outcome \<times> world" where
  "renameAliasCommand item input w =
     (case data item of
        None \<Rightarrow> (NoData, w)
      | Some a \<Rightarrow>
          (case input of
             None \<Rightarrow> (Cancelled, w)
           | Some cmd \<Rightarrow>
               if cmd = [] then (Failed EmptyInput, w)
               else
                 (case renameAliases (storeFile w) a (aliasName a, cmd) of
                    Inl e \<Rightarrow> (Failed e, w)
                  | Inr file' \<Rightarrow>
                      (let w1 = w\<lparr>storeFile := file'\<rparr>;
                           w2 = fold (updateSameAlias a (\<lambda>r. r\<lparr>command := cmd\<rparr>)) (keys w1) w1;
                           w3 = executeCommandInTerminal (formatAlias (aliasName a) cmd) w2
                       in (Done, refresh w3)))))"

text \<open>\<open>runAlias.frequency ?? 0\<close>.\<close>

definition frequencyOr0 :: "Alias \<Rightarrow> int" where
  "frequencyOr0 a = (case frequency a of None \<Rightarrow> 0 | Some n \<Rightarrow> n)"

definition runAlias :: "aliasItem \<Rightarrow> world \<Rightarrow> outcome \<times> world" where
  "runAlias item w =
     (case data item of
        None \<Rightarrow> (NoData, w)
      | Some a \<Rightarrow>
          (let systemAliases = normalizeAliasesToArray (get (groupName item) w);
               w1 = (case find (isSameAlias a) systemAliases of
                       None \<Rightarrow> w
                     | Some found \<Rightarrow>
                         refresh
                           (update (groupName item)
                              (Some (mutateFound (isSameAlias a)
                                       (\<lambda>r. r\<lparr>frequency := Some (frequencyOr0 r + 1)\<rparr>)
                                       systemAliases))
                              w))
           in (Done, executeCommandInTerminal (aliasName a) w1)))"

definition removeFromCurrentGroup :: "aliasItem \<Rightarrow> world \<Rightarrow> outcome \<times> world" where
  "removeFromCurrentGroup item w =
     (case data item of
        None \<Rightarrow> (NoData, w)
      | Some a \<Rightarrow>
          (let aliases = filter (\<lambda>aliasItem. \<not> isSameAlias a aliasItem)
                           (normalizeAliasesToArray (get (groupName item) w))
           in (Done, refresh (update (groupName item) (Some aliases) w))))"

text \<open>The groups offered by \<open>addToGroup\<close>.\<close>

definition candidateGroups :: "aliasItem \<Rightarrow> world \<Rightarrow> string list" where
  "candidateGroups item w =
     filter (\<lambda>key. key \<notin> set [SYSTEM_ALIAS, groupName item]) (keys w)"

text \<open>\<open>pick\<close> is the quick pick: the user's choice among the groups shown, or none.\<close>

definition addToGroup ::
  "aliasItem \<Rightarrow> (string list \<Rightarrow> string option) \<Rightarrow> world \<Rightarrow> outcome \<times> world" where
  "addToGroup item pick w =
     (case data item of
        None \<Rightarrow> (NoData, w)
      | Some a \<Rightarrow>
          (let groups = candidateGroups item w in
           if groups = [] then (Failed NoEligibleGroup, w)
           else
             (case pick groups of
                None \<Rightarrow> (Cancelled, w)
              | Some selectedGroup \<Rightarrow>
                  (let aliases = normalizeAliasesToArray (get selectedGroup w)
                   in (Done, refresh (update selectedGroup (Some (aliases @ [a])) w))))))"

definition deleteGroup :: "aliasItem \<Rightarrow> world \<Rightarrow> outcome \<times> world" where
  "deleteGroup item w = (Done, refresh (update (groupName item) None w))"

definition renameGroup :: "aliasItem \<Rightarrow> string option \<Rightarrow> world \<Rightarrow> outcome \<times> world" where
  "renameGroup item input w =
     (case input of
        None \<Rightarrow> (Cancelled, w)
      | Some newGroup \<Rightarrow>
          if newGroup = [] then (Failed EmptyInput, w)
          else if newGroup \<in> set (keys w) then (Failed DuplicateGroup, w)
          else
            (let aliases = normalizeAliasesToArray (get (groupName item) w);
                 w1 = update (groupName item) None w;
                 w2 = update newGroup (Some aliases) w1
             in (Done, refresh w2)))"

definition addNewGroup :: "string option \<Rightarrow> world \<Rightarrow> outcome \<times> world" where
  "addNewGroup input w =
     (case input of
        None \<Rightarrow> (Cancelled, w)
      | Some newGroup \<Rightarrow>
          if newGroup = [] then (Failed EmptyInput, w)
          else if newGroup \<in> set (keys w) then (Failed DuplicateGroup, w)
          else (Done, refresh (update newGroup (Some []) w)))"



text \<open>
  \<open>getAliasTree\<close> first overwrites the system group with the aliases of the store file
  and then builds one parent node for every key, with a leaf for every alias of the group.
\<close>

definition leafItem :: "string \<Rightarrow> Alias \<Rightarrow> aliasItem" where
  "leafItem key a =
     AliasItem (aliasName a @ '' = '' @ [CHR 0x27] @ command a @ [CHR 0x27]) (Some a) key
       (case description a of None \<Rightarrow> [] | Some d \<Rightarrow> d) [] True"

definition getAliasTree :: "world \<Rightarrow> aliasItem list \<times> world" where
  "getAliasTree w =
     (let w1 = update SYSTEM_ALIAS (Some (getAliases (storeFile w))) w
      in (map (\<lambda>key.
                 AliasItem key None key []
                   (map (leafItem key) (normalizeAliasesToArray (get key w1))) False)
            (keys w1),
          w1))"

definition getChildren :: "aliasItem option \<Rightarrow> world \<Rightarrow> aliasItem list \<times> world" where
  "getChildren element w =
     (case element of Some e \<Rightarrow> (children e, w) | None \<Rightarrow> getAliasTree w)"

section \<open>Vocabulary of the properties\<close>





subsection \<open>Example data\<close>

definition quote :: string where
  "quote = [CHR 0x27]"

definition nv :: Alias where
  "nv = \<lparr>aliasName = ''nv'', command = ''node -v'', frequency = Some 0,
         description = Some []\<rparr>"

definition gs :: Alias where
  "gs = \<lparr>aliasName = ''gs'', command = ''git status'', frequency = Some 0,
         description = Some []\<rparr>"

definition nvLine :: string where
  "nvLine = ''alias nv='' @ quote @ ''node -v'' @ quote"

definition gsText :: string where
  "gsText = ''gs='' @ quote @ ''git status'' @ quote"

definition gsLine :: string where
  "gsLine = ''alias '' @ gsText"


section \<open>Facts about the built-ins and the group store\<close>

lemma mutateFound_first:
  "\<forall>y \<in> set pre. \<not> P y \<Longrightarrow> P x \<Longrightarrow> mutateFound P f (pre @ x # post) = pre @ f x # post"
  by (induction pre) auto


lemma get_update_Some: "get k' (update k (Some v) w) = (if k' = k then Some v else get k' w)"
  by (simp add: get_def update_def update_conv')

lemma get_update_None: "get k' (update k None w) = (if k' = k then None else get k' w)"
  by (simp add: get_def update_def delete_conv')

lemma keys_update_Some:
  "keys (update k (Some v) w) = (if k \<in> set (keys w) then keys w else keys w @ [k])"
  by (simp add: keys_def update_def update_keys)

lemma keys_update_None: "keys (update k None w) = removeAll k (keys w)"
  by (simp add: keys_def update_def delete_keys)

text \<open>The keys of the store stay distinct under every write.\<close>

lemma distinct_keys_update: "distinct (keys w) \<Longrightarrow> distinct (keys (update k v w))"
  by (cases v) (simp_all add: keys_def update_def distinct_update distinct_delete)

lemma effects_update: "effects (update k v w) = effects w @ [Update k]"
  by (simp add: update_def)

lemma get_refresh: "get k (refresh w) = get k w"
  by (simp add: get_def refresh_def)

lemma keys_refresh: "keys (refresh w) = keys w"
  by (simp add: keys_def refresh_def)

lemma get_executeCommandInTerminal: "get k (executeCommandInTerminal c w) = get k w"
  by (simp add: get_def executeCommandInTerminal_def)

lemma keys_executeCommandInTerminal: "keys (executeCommandInTerminal c w) = keys w"
  by (simp add: keys_def executeCommandInTerminal_def)

lemma get_storeFile_update: "get k (w\<lparr>storeFile := f\<rparr>) = get k w"
  by (simp add: get_def)

lemma keys_storeFile_update: "keys (w\<lparr>storeFile := f\<rparr>) = keys w"
  by (simp add: keys_def)


lemma group_has_key: "get k w = Some xs \<Longrightarrow> k \<in> set (keys w)"
  by (metis keys_def get_def map_of_SomeD fst_conv image_eqI set_map)

subsection \<open>The loop over all groups\<close>







section \<open>Running an alias\<close>

text \<open>
  Claim C1, as amended. When an alias item is run and its group holds an alias of the
  same identity, the first such alias of that group gets its frequency raised by 1, a
  missing frequency counting as 0; the aliases before and after it stay as they are.
  The group is written to the store before the alias name is sent to the terminal.
\<close>
theorem runAlias_increments_first_match:
  assumes "data item = Some a"
    and "get (groupName item) w = Some (pre @ x # post)"
    and "\<forall>y \<in> set pre. \<not> isSameAlias a y"
    and "isSameAlias a x"
  shows "fst (runAlias item w) = Done \<and>
         get (groupName item) (snd (runAlias item w)) =
           Some (pre @
                 x\<lparr>frequency := Some ((case frequency x of None \<Rightarrow> 0 | Some n \<Rightarrow> n) + 1)\<rparr> #
                 post) \<and>
         effects (snd (runAlias item w)) =
           effects w @ [Update (groupName item), Refresh, SendText (aliasName a)]"
proof -
  let ?xs = "pre @ x # post"
  have "find (isSameAlias a) ?xs \<noteq> None"
    using assms(4) by (auto simp: find_None_iff)
  then obtain r where r: "find (isSameAlias a) ?xs = Some r" by blast
  have m: "mutateFound (isSameAlias a) (\<lambda>r. r\<lparr>frequency := Some (frequencyOr0 r + 1)\<rparr>) ?xs =
        pre @ x\<lparr>frequency := Some (frequencyOr0 x + 1)\<rparr> # post"
    using assms(3,4) by (rule mutateFound_first)
  have w': "snd (runAlias item w) =
      executeCommandInTerminal (aliasName a)
        (refresh (update (groupName item)
           (Some (pre @ x\<lparr>frequency := Some (frequencyOr0 x + 1)\<rparr> # post)) w))"
    using assms(1,2) r m by (simp add: runAlias_def normalizeAliasesToArray_def)
  have "fst (runAlias item w) = Done"
    using assms(1) by (simp add: runAlias_def Let_def)
  moreover have "get (groupName item) (snd (runAlias item w)) =
      Some (pre @ x\<lparr>frequency := Some (frequencyOr0 x + 1)\<rparr> # post)"
    by (simp add: w' get_executeCommandInTerminal get_refresh get_update_Some)
  moreover have "effects (snd (runAlias item w)) =
      effects w @ [Update (groupName item), Refresh, SendText (aliasName a)]"
    by (simp add: w' executeCommandInTerminal_def refresh_def effects_update)
  ultimately show ?thesis
    by (simp add: frequencyOr0_def)
qed

theorem runAlias_increments_first_match_witness:
  "get ''work'' (snd (runAlias (AliasItem ''nv'' (Some nv) ''work'' [] [] True)
      \<lparr>storeFile = [nvLine], globalState = [(''work'', [gs, nv\<lparr>frequency := None\<rparr>, nv])],
        effects = []\<rparr>))
     = Some [gs, nv\<lparr>frequency := Some 1\<rparr>, nv] \<and>
   effects (snd (runAlias (AliasItem ''nv'' (Some nv) ''work'' [] [] True)
      \<lparr>storeFile = [nvLine], globalState = [(''work'', [gs, nv\<lparr>frequency := None\<rparr>, nv])],
        effects = []\<rparr>))
     = [Update ''work'', Refresh, SendText ''nv'']"
  using runAlias_increments_first_match [of "AliasItem ''nv'' (Some nv) ''work'' [] [] True" nv
      "\<lparr>storeFile = [nvLine], globalState = [(''work'', [gs, nv\<lparr>frequency := None\<rparr>, nv])],
        effects = []\<rparr>"
      "[gs]" "nv\<lparr>frequency := None\<rparr>" "[nv]"]
  by (simp add: get_def isSameAlias_def nv_def gs_def)

text \<open>
  C1 as stated fails: run from the system group, an alias held twice there and once in
  the group \<open>work\<close> is counted once, on the first copy of the system group. The second
  copy and the copy in \<open>work\<close> keep frequency 0.
\<close>
theorem runAlias_other_copies_counterexample:
  "get SYSTEM_ALIAS (snd (runAlias (AliasItem ''nv'' (Some nv) SYSTEM_ALIAS [] [] True)
      \<lparr>storeFile = [nvLine, nvLine], globalState = [(SYSTEM_ALIAS, [nv, nv]), (''work'', [nv])],
        effects = []\<rparr>))
     = Some [nv\<lparr>frequency := Some 1\<rparr>, nv] \<and>
   get ''work'' (snd (runAlias (AliasItem ''nv'' (Some nv) SYSTEM_ALIAS [] [] True)
      \<lparr>storeFile = [nvLine, nvLine], globalState = [(SYSTEM_ALIAS, [nv, nv]), (''work'', [nv])],
        effects = []\<rparr>))
     = Some [nv] \<and>
   frequency nv = Some 0"
  by (simp add: runAlias_def get_def update_def refresh_def executeCommandInTerminal_def
        normalizeAliasesToArray_def isSameAlias_def frequencyOr0_def nv_def SYSTEM_ALIAS_def)

section \<open>Edits made in every group\<close>





lemma resolveAlias_nvLine: "resolveAlias nvLine = Some nv"
  by code_simp

lemma resolveAlias_gsLine: "resolveAlias gsLine = Some gs"
  by code_simp

lemma nv_not_gs: "\<not> isSameAlias nv gs" "\<not> isSameAlias gs nv" "isSameAlias nv nv" "isSameAlias gs gs"
  by (simp_all add: isSameAlias_def nv_def gs_def)


section \<open>The system group\<close>

lemma resolveAlias_bare: "resolveAlias ''alias '' = None"
  by code_simp

lemma get_getAliasTree:
  "get k (snd (getAliasTree w)) = (if k = SYSTEM_ALIAS then Some (getAliases (storeFile w)) else get k w)"
  by (simp add: getAliasTree_def Let_def get_update_Some)

lemma addAlias_Done:
  assumes "fst (addAlias (Some text) w) = Done"
  shows "\<exists>r. resolveAlias (''alias '' @ text) = Some r \<and>
             snd (addAlias (Some text) w) =
               refresh (executeCommandInTerminal (''alias '' @ text)
                 (update SYSTEM_ALIAS
                    (Some (normalizeAliasesToArray (get SYSTEM_ALIAS w) @
                           [r\<lparr>frequency := Some 0, description := Some []\<rparr>]))
                    (w\<lparr>storeFile := storeFile w @ [''alias '' @ text]\<rparr>)))"
  using assms
  by (auto simp: addAlias_def Let_def appendAliasToStoreFile_def get_def
      split: if_splits option.splits)

text \<open>
  Claim C3, as amended. A request for the children of the root overwrites the system
  group with the aliases parsed from the store file, in the order of the file's lines.
  An add-alias that goes through appends the statement to the store file and the
  resolved alias, with frequency 0 and an empty description, to the system group.
\<close>
theorem system_group_refresh_and_add:
  "get SYSTEM_ALIAS (snd (getChildren None w)) = Some (getAliases (storeFile w)) \<and>
   getAliases (storeFile w) =
     map (the \<circ> resolveAlias) (filter (\<lambda>line. resolveAlias line \<noteq> None) (storeFile w)) \<and>
   (fst (addAlias (Some text) w) = Done \<longrightarrow>
      (\<exists>r. resolveAlias (''alias '' @ text) = Some r \<and>
           storeFile (snd (addAlias (Some text) w)) = storeFile w @ [''alias '' @ text] \<and>
           get SYSTEM_ALIAS (snd (addAlias (Some text) w)) =
             Some (normalizeAliasesToArray (get SYSTEM_ALIAS w) @
                   [r\<lparr>frequency := Some 0, description := Some []\<rparr>])))"
proof -
  have 1: "get SYSTEM_ALIAS (snd (getChildren None w)) = Some (getAliases (storeFile w))"
    by (simp add: getChildren_def get_getAliasTree)
  have 2: "getAliases (storeFile w) =
     map (the \<circ> resolveAlias) (filter (\<lambda>line. resolveAlias line \<noteq> None) (storeFile w))"
    by (simp add: getAliases_def map_filter_def)
  have 3: "\<exists>r. resolveAlias (''alias '' @ text) = Some r \<and>
           storeFile (snd (addAlias (Some text) w)) = storeFile w @ [''alias '' @ text] \<and>
           get SYSTEM_ALIAS (snd (addAlias (Some text) w)) =
             Some (normalizeAliasesToArray (get SYSTEM_ALIAS w) @
                   [r\<lparr>frequency := Some 0, description := Some []\<rparr>])"
    if d: "fst (addAlias (Some text) w) = Done"
  proof -
    obtain r where r: "resolveAlias (''alias '' @ text) = Some r"
      and w': "snd (addAlias (Some text) w) =
               refresh (executeCommandInTerminal (''alias '' @ text)
                 (update SYSTEM_ALIAS
                    (Some (normalizeAliasesToArray (get SYSTEM_ALIAS w) @
                           [r\<lparr>frequency := Some 0, description := Some []\<rparr>]))
                    (w\<lparr>storeFile := storeFile w @ [''alias '' @ text]\<rparr>)))"
      using addAlias_Done [OF d] by blast
    have "storeFile (snd (addAlias (Some text) w)) = storeFile w @ [''alias '' @ text]"
      by (simp add: w' refresh_def executeCommandInTerminal_def update_def)
    moreover have "get SYSTEM_ALIAS (snd (addAlias (Some text) w)) =
             Some (normalizeAliasesToArray (get SYSTEM_ALIAS w) @
                   [r\<lparr>frequency := Some 0, description := Some []\<rparr>])"
      by (simp add: w' get_refresh get_executeCommandInTerminal get_update_Some)
    ultimately show ?thesis
      using r by simp
  qed
  show ?thesis
    using 1 2 3 by blast
qed

text \<open>
  C3 as stated fails where it says that no other command writes the membership of the
  system group: deleting an alias removes it from the system group as from every group.
\<close>
theorem deleteAlias_writes_system_group_counterexample:
  "get SYSTEM_ALIAS
     \<lparr>storeFile = [nvLine], globalState = [(SYSTEM_ALIAS, [nv])], effects = []\<rparr> = Some [nv] \<and>
   get SYSTEM_ALIAS
     (snd (deleteAlias (AliasItem ''nv'' (Some nv) SYSTEM_ALIAS [] [] True)
        \<lparr>storeFile = [nvLine], globalState = [(SYSTEM_ALIAS, [nv])], effects = []\<rparr>)) = Some []"
  by (simp add: deleteAlias_def Let_def get_def keys_def update_def refresh_def
      executeCommandInTerminal_def normalizeAliasesToArray_def nv_not_gs)

theorem system_group_refresh_and_add_witness:
  "get SYSTEM_ALIAS
     (snd (getChildren None
        \<lparr>storeFile = [''export EDITOR=vi'', nvLine, gsLine], globalState = [(SYSTEM_ALIAS, [])],
          effects = []\<rparr>)) = Some [nv, gs] \<and>
   storeFile (snd (addAlias (Some (gsText))
        \<lparr>storeFile = [nvLine], globalState = [(SYSTEM_ALIAS, [nv])], effects = []\<rparr>))
     = [nvLine, gsLine] \<and>
   get SYSTEM_ALIAS (snd (addAlias (Some (gsText))
        \<lparr>storeFile = [nvLine], globalState = [(SYSTEM_ALIAS, [nv])], effects = []\<rparr>))
     = Some [nv, gs]"
proof -
  let ?w = "\<lparr>storeFile = [nvLine], globalState = [(SYSTEM_ALIAS, [nv])], effects = []\<rparr>"
  let ?v = "\<lparr>storeFile = [''export EDITOR=vi'', nvLine, gsLine],
             globalState = [(SYSTEM_ALIAS, [])], effects = []\<rparr>"
  have t: "resolveAlias (''alias '' @ gsText) = Some gs"
    by code_simp
  have l: "storeFile ?w @ [''alias '' @ gsText] = [nvLine, gsLine]"
    by (simp add: gsLine_def)
  have n: "gsText \<noteq> []"
    by (simp add: gsText_def)
  have "resolveAlias ''export EDITOR=vi'' = None"
    by code_simp
  then have f: "getAliases (storeFile ?v) = [nv, gs]"
    by (simp add: getAliases_def map_filter_def resolveAlias_nvLine resolveAlias_gsLine)
  have d: "fst (addAlias (Some (gsText)) ?w) = Done"
    using n t by (simp add: addAlias_def getAliases_def map_filter_def
        resolveAlias_nvLine Let_def nv_def gs_def)
  have g: "gs\<lparr>frequency := Some 0, description := Some []\<rparr> = gs"
    by (simp add: gs_def)
  show ?thesis
    using system_group_refresh_and_add [of ?v] system_group_refresh_and_add [of ?w "gsText"]
      d f t l
    by (simp add: g get_def normalizeAliasesToArray_def)
qed

section \<open>Duplicate guards\<close>

text \<open>
  Claim C4. An add-alias whose resolved name is the name of an alias parsed from the
  store file ends with \<open>DuplicateAlias\<close> and leaves the world as it was: the store file,
  every group, and nothing sent to the terminal.
\<close>
theorem addAlias_duplicate_aborts:
  assumes "resolveAlias (''alias '' @ text) = Some r"
    and "aliasName r \<in> set (map aliasName (getAliases (storeFile w)))"
  shows "addAlias (Some text) w = (Failed DuplicateAlias, w)"
proof -
  have "text \<noteq> []"
    using assms(1) resolveAlias_bare by auto
  then show ?thesis
    using assms by (simp add: addAlias_def)
qed

theorem addAlias_duplicate_aborts_witness:
  "addAlias (Some (''nv=ls''))
     \<lparr>storeFile = [nvLine], globalState = [(SYSTEM_ALIAS, [nv]), (''work'', [gs])], effects = []\<rparr>
   = (Failed DuplicateAlias,
      \<lparr>storeFile = [nvLine], globalState = [(SYSTEM_ALIAS, [nv]), (''work'', [gs])], effects = []\<rparr>)"
proof -
  have r: "resolveAlias (''alias '' @ ''nv=ls'') =
      Some \<lparr>aliasName = ''nv'', command = ''ls'', frequency = Some 0, description = Some []\<rparr>"
    by code_simp
  show ?thesis
    using addAlias_duplicate_aborts [OF r,
        of "\<lparr>storeFile = [nvLine], globalState = [(SYSTEM_ALIAS, [nv]), (''work'', [gs])], effects = []\<rparr>"]
    by (simp add: getAliases_def map_filter_def resolveAlias_nvLine nv_def)
qed

text \<open>
  Claim C5. A new group or a group rename whose name is the key of an existing group
  ends with \<open>DuplicateGroup\<close> and leaves the world as it was.
\<close>
theorem duplicate_group_aborts:
  assumes "newGroup \<noteq> []" and "newGroup \<in> set (keys w)"
  shows "addNewGroup (Some newGroup) w = (Failed DuplicateGroup, w) \<and>
         renameGroup item (Some newGroup) w = (Failed DuplicateGroup, w)"
  using assms by (simp add: addNewGroup_def renameGroup_def)

theorem duplicate_group_aborts_witness:
  "addNewGroup (Some ''work'')
     \<lparr>storeFile = [], globalState = [(SYSTEM_ALIAS, [nv]), (''work'', [gs]), (''play'', [])], effects = []\<rparr>
   = (Failed DuplicateGroup,
      \<lparr>storeFile = [], globalState = [(SYSTEM_ALIAS, [nv]), (''work'', [gs]), (''play'', [])], effects = []\<rparr>) \<and>
   renameGroup (AliasItem ''play'' None ''play'' [] [] False) (Some ''work'')
     \<lparr>storeFile = [], globalState = [(SYSTEM_ALIAS, [nv]), (''work'', [gs]), (''play'', [])], effects = []\<rparr>
   = (Failed DuplicateGroup,
      \<lparr>storeFile = [], globalState = [(SYSTEM_ALIAS, [nv]), (''work'', [gs]), (''play'', [])], effects = []\<rparr>)"
  using duplicate_group_aborts [of "''work''"
      "\<lparr>storeFile = [], globalState = [(SYSTEM_ALIAS, [nv]), (''work'', [gs]), (''play'', [])], effects = []\<rparr>"
      "AliasItem ''play'' None ''play'' [] [] False"]
  by (simp add: keys_def)

section \<open>Groups\<close>

text \<open>
  Claim C6. Deleting a group removes its key from the store; every other group stays.
  Renaming an existing group to a name that is not a key puts the whole sequence of the
  group under the new key, removes the old key and leaves every other group as it was.
\<close>
theorem delete_and_rename_group:
  "keys (snd (deleteGroup item w)) = removeAll (groupName item) (keys w) \<and>
   groupName item \<notin> set (keys (snd (deleteGroup item w))) \<and>
   get (groupName item) (snd (deleteGroup item w)) = None \<and>
   (k \<noteq> groupName item \<longrightarrow> get k (snd (deleteGroup item w)) = get k w) \<and>
   (newGroup \<noteq> [] \<and> newGroup \<notin> set (keys w) \<and> get (groupName item) w = Some xs \<longrightarrow>
      fst (renameGroup item (Some newGroup) w) = Done \<and>
      get newGroup (snd (renameGroup item (Some newGroup) w)) = Some xs \<and>
      get (groupName item) (snd (renameGroup item (Some newGroup) w)) = None \<and>
      keys (snd (renameGroup item (Some newGroup) w)) =
        removeAll (groupName item) (keys w) @ [newGroup] \<and>
      (k \<noteq> groupName item \<and> k \<noteq> newGroup \<longrightarrow>
         get k (snd (renameGroup item (Some newGroup) w)) = get k w))"
proof -
  have d: "snd (deleteGroup item w) = refresh (update (groupName item) None w)"
    by (simp add: deleteGroup_def)
  have 1: "keys (snd (deleteGroup item w)) = removeAll (groupName item) (keys w)"
    by (simp add: d keys_refresh keys_update_None)
  have 2: "get k' (snd (deleteGroup item w)) = (if k' = groupName item then None else get k' w)"
    for k'
    by (simp add: d get_refresh get_update_None)
  have 3: "fst (renameGroup item (Some newGroup) w) = Done \<and>
      get newGroup (snd (renameGroup item (Some newGroup) w)) = Some xs \<and>
      get (groupName item) (snd (renameGroup item (Some newGroup) w)) = None \<and>
      keys (snd (renameGroup item (Some newGroup) w)) =
        removeAll (groupName item) (keys w) @ [newGroup] \<and>
      (k \<noteq> groupName item \<and> k \<noteq> newGroup \<longrightarrow>
         get k (snd (renameGroup item (Some newGroup) w)) = get k w)"
    if n: "newGroup \<noteq> []" "newGroup \<notin> set (keys w)" and g: "get (groupName item) w = Some xs"
  proof -
    have ne: "groupName item \<noteq> newGroup"
      using n(2) g group_has_key by blast
    have r: "renameGroup item (Some newGroup) w =
        (Done, refresh (update newGroup (Some xs) (update (groupName item) None w)))"
      using n g by (simp add: renameGroup_def normalizeAliasesToArray_def)
    show ?thesis
      using ne n(2)
      by (simp add: r get_refresh keys_refresh get_update_Some get_update_None keys_update_Some
          keys_update_None)
  qed
  show ?thesis
    using 1 2 3 by simp
qed

theorem delete_and_rename_group_witness:
  "keys (snd (deleteGroup (AliasItem ''work'' None ''work'' [] [] False)
      \<lparr>storeFile = [], globalState = [(SYSTEM_ALIAS, [nv]), (''work'', [gs, nv]), (''play'', [])],
        effects = []\<rparr>)) = [SYSTEM_ALIAS, ''play''] \<and>
   get ''job'' (snd (renameGroup (AliasItem ''work'' None ''work'' [] [] False) (Some ''job'')
      \<lparr>storeFile = [], globalState = [(SYSTEM_ALIAS, [nv]), (''work'', [gs, nv]), (''play'', [])],
        effects = []\<rparr>)) = Some [gs, nv] \<and>
   keys (snd (renameGroup (AliasItem ''work'' None ''work'' [] [] False) (Some ''job'')
      \<lparr>storeFile = [], globalState = [(SYSTEM_ALIAS, [nv]), (''work'', [gs, nv]), (''play'', [])],
        effects = []\<rparr>)) = [SYSTEM_ALIAS, ''play'', ''job'']"
  using delete_and_rename_group [of "AliasItem ''work'' None ''work'' [] [] False"
      "\<lparr>storeFile = [], globalState = [(SYSTEM_ALIAS, [nv]), (''work'', [gs, nv]), (''play'', [])],
        effects = []\<rparr>" "''play''" "''job''" "[gs, nv]"]
  by (simp add: keys_def get_def SYSTEM_ALIAS_def)

text \<open>
  Claim C7. The groups offered by add-to-group are the keys of the store without the
  system group and without the group of the alias, in the order of the keys. When there
  is none, the command ends with \<open>NoEligibleGroup\<close> and the world is as it was. When
  one is chosen, the alias is appended once to the sequence of that group, and the other
  groups stay.
\<close>
theorem addToGroup_targets:
  assumes "data item = Some a"
  shows "candidateGroups item w =
           filter (\<lambda>key. key \<noteq> SYSTEM_ALIAS \<and> key \<noteq> groupName item) (keys w) \<and>
         (candidateGroups item w = [] \<longrightarrow> addToGroup item pick w = (Failed NoEligibleGroup, w)) \<and>
         (candidateGroups item w \<noteq> [] \<and> pick (candidateGroups item w) = Some target \<longrightarrow>
            fst (addToGroup item pick w) = Done \<and>
            get target (snd (addToGroup item pick w)) =
              Some (normalizeAliasesToArray (get target w) @ [a]) \<and>
            (k \<noteq> target \<longrightarrow> get k (snd (addToGroup item pick w)) = get k w))"
  using assms
  by (simp add: candidateGroups_def addToGroup_def Let_def get_refresh get_update_Some)

theorem addToGroup_targets_witness:
  "candidateGroups (AliasItem ''nv'' (Some nv) ''work'' [] [] True)
      \<lparr>storeFile = [], globalState = [(SYSTEM_ALIAS, [nv]), (''work'', [nv]), (''play'', [gs])],
        effects = []\<rparr> = [''play''] \<and>
   get ''play'' (snd (addToGroup (AliasItem ''nv'' (Some nv) ''work'' [] [] True) (\<lambda>groups. Some (hd groups))
      \<lparr>storeFile = [], globalState = [(SYSTEM_ALIAS, [nv]), (''work'', [nv]), (''play'', [gs])],
        effects = []\<rparr>)) = Some [gs, nv] \<and>
   addToGroup (AliasItem ''nv'' (Some nv) ''work'' [] [] True) (\<lambda>groups. Some (hd groups))
      \<lparr>storeFile = [], globalState = [(SYSTEM_ALIAS, [nv]), (''work'', [nv])], effects = []\<rparr>
     = (Failed NoEligibleGroup,
        \<lparr>storeFile = [], globalState = [(SYSTEM_ALIAS, [nv]), (''work'', [nv])], effects = []\<rparr>)"
  using addToGroup_targets [of "AliasItem ''nv'' (Some nv) ''work'' [] [] True" nv
      "\<lparr>storeFile = [], globalState = [(SYSTEM_ALIAS, [nv]), (''work'', [nv]), (''play'', [gs])],
        effects = []\<rparr>" "\<lambda>groups. Some (hd groups)" "''play''" "''play''"]
    addToGroup_targets [of "AliasItem ''nv'' (Some nv) ''work'' [] [] True" nv
      "\<lparr>storeFile = [], globalState = [(SYSTEM_ALIAS, [nv]), (''work'', [nv])], effects = []\<rparr>"
      "\<lambda>groups. Some (hd groups)" "''play''" "''play''"]
  by (simp add: keys_def get_def SYSTEM_ALIAS_def normalizeAliasesToArray_def)

section \<open>The store writer\<close>

lemma replaceFirst_first:
  "\<forall>l' \<in> set pre. \<not> lineHasIdentity old l' \<Longrightarrow> lineHasIdentity old l \<Longrightarrow>
   replaceFirst old new (pre @ l # post) = Some (pre @ new # post)"
  by (induction pre) auto

lemma replaceFirst_absent:
  "\<forall>l \<in> set ls. \<not> lineHasIdentity old l \<Longrightarrow> replaceFirst old new ls = None"
  by (induction ls) auto

lemma replaceFirst_length:
  "replaceFirst old new ls = Some ls' \<Longrightarrow> length ls' = length ls"
  by (induction ls arbitrary: ls') (auto split: if_splits option.splits)

text \<open>
  Claim C9. \<open>replaceOne\<close> replaces the text of the first line whose parsed alias has the
  old identity and nothing else: the lines before and after it are the same, in the same
  order, and the number of lines is the same. When no line has that identity it fails
  with \<open>AliasNotFound\<close>, and a rename that uses it leaves the world, the store file
  included, as it was.
\<close>
theorem replaceOne_frame:
  "(file = pre @ l # post \<and> (\<forall>l' \<in> set pre. \<not> lineHasIdentity old l') \<and> lineHasIdentity old l \<longrightarrow>
      replaceOne file old new = Inr (pre @ new # post)) \<and>
   (replaceOne file old new = Inr file' \<longrightarrow> length file' = length file) \<and>
   ((\<forall>l \<in> set file. \<not> lineHasIdentity old l) \<longrightarrow> replaceOne file old new = Inl AliasNotFound) \<and>
   ((\<forall>l \<in> set (storeFile w). \<not> lineHasIdentity old l) \<and> data item = Some old \<and> input \<noteq> [] \<longrightarrow>
      renameAliasName item (Some input) w = (Failed AliasNotFound, w) \<and>
      renameAliasCommand item (Some input) w = (Failed AliasNotFound, w))"
proof -
  have 1: "replaceOne file old new = Inr (pre @ new # post)"
    if "file = pre @ l # post" "\<forall>l' \<in> set pre. \<not> lineHasIdentity old l'" "lineHasIdentity old l"
    using that by (simp add: replaceOne_def replaceFirst_first)
  have 2: "length file' = length file" if "replaceOne file old new = Inr file'"
    using that by (auto simp: replaceOne_def dest: replaceFirst_length split: option.splits)
  have 3: "replaceOne f old n = Inl AliasNotFound" if "\<forall>l \<in> set f. \<not> lineHasIdentity old l"
    for f n
    using that by (simp add: replaceOne_def replaceFirst_absent)
  have 4: "renameAliasName item (Some input) w = (Failed AliasNotFound, w) \<and>
      renameAliasCommand item (Some input) w = (Failed AliasNotFound, w)"
    if "\<forall>l \<in> set (storeFile w). \<not> lineHasIdentity old l" "data item = Some old" "input \<noteq> []"
    using that 3 [of "storeFile w"]
    by (simp add: renameAliasName_def renameAliasCommand_def renameAliases_def)
  show ?thesis
    using 1 2 3 4 by blast
qed

theorem replaceOne_frame_witness:
  "replaceOne [''# aliases'', gsLine, nvLine, ''export A=1'', nvLine] nv (formatAlias ''nn'' ''node -v'')
     = Inr [''# aliases'', gsLine, formatAlias ''nn'' ''node -v'', ''export A=1'', nvLine] \<and>
   replaceOne [''# aliases'', gsLine] nv (formatAlias ''nn'' ''node -v'') = Inl AliasNotFound"
proof -
  have c: "resolveAlias ''# aliases'' = None"
    by code_simp
  have p: "\<forall>l' \<in> set [''# aliases'', gsLine]. \<not> lineHasIdentity nv l'"
    by (simp add: lineHasIdentity_def c resolveAlias_gsLine nv_not_gs)
  have l: "lineHasIdentity nv nvLine"
    by (simp add: lineHasIdentity_def resolveAlias_nvLine nv_not_gs)
  show ?thesis
    using replaceOne_frame [of "[''# aliases'', gsLine, nvLine, ''export A=1'', nvLine]"
        "[''# aliases'', gsLine]" nvLine "[''export A=1'', nvLine]" nv "formatAlias ''nn'' ''node -v''"]
      replaceOne_frame [of "[''# aliases'', gsLine]" "[]" "[]" "[]" nv "formatAlias ''nn'' ''node -v''"]
      p l
    by simp
qed

section \<open>Deleting every alias\<close>

lemma keys_fold_clear:
  "set ks \<subseteq> set (keys w) \<Longrightarrow> keys (fold (\<lambda>key. update key (Some [])) ks w) = keys w"
  by (induction ks arbitrary: w) (simp_all add: keys_update_Some)

lemma get_fold_clear:
  "get k (fold (\<lambda>key. update key (Some [])) ks w) = (if k \<in> set ks then Some [] else get k w)"
  by (induction ks arbitrary: w) (auto simp: get_update_Some)

text \<open>
  Claim C10. A confirmed delete-all on a store file with at least one alias line leaves
  every key of the store with the empty sequence, whatever the group held. On a store
  file without alias lines it changes nothing.
\<close>
theorem deleteAllAlias_groups:
  "(getAliases (storeFile w) \<noteq> [] \<longrightarrow>
      fst (deleteAllAlias (Some confirm) w) = Done \<and>
      keys (snd (deleteAllAlias (Some confirm) w)) = keys w \<and>
      (\<forall>k \<in> set (keys w). get k (snd (deleteAllAlias (Some confirm) w)) = Some [])) \<and>
   (getAliases (storeFile w) = [] \<longrightarrow> deleteAllAlias (Some confirm) w = (NothingToDo, w))"
proof -
  let ?w2 = "(executeCommandInTerminal (formatUnaliasCommand (getAliases (storeFile w))) w)
               \<lparr>storeFile := deleteAliases (storeFile w) None\<rparr>"
  have k2: "keys ?w2 = keys w"
    by (simp add: keys_def executeCommandInTerminal_def)
  have "deleteAllAlias (Some confirm) w =
      (Done, refresh (fold (\<lambda>key. update key (Some [])) (keys w) ?w2))"
    if "getAliases (storeFile w) \<noteq> []"
    using that k2 by (simp add: deleteAllAlias_def Let_def executeCommandInTerminal_def)
  then show ?thesis
    using k2 by (simp add: get_refresh keys_refresh keys_fold_clear get_fold_clear
        deleteAllAlias_def)
qed

theorem deleteAllAlias_groups_witness:
  "get SYSTEM_ALIAS (snd (deleteAllAlias (Some ''Confirm'')
        \<lparr>storeFile = [nvLine], globalState = [(SYSTEM_ALIAS, [nv]), (''work'', [gs])],
          effects = []\<rparr>)) = Some [] \<and>
   get ''work'' (snd (deleteAllAlias (Some ''Confirm'')
        \<lparr>storeFile = [nvLine], globalState = [(SYSTEM_ALIAS, [nv]), (''work'', [gs])],
          effects = []\<rparr>)) = Some [] \<and>
   deleteAllAlias (Some ''Confirm'')
     \<lparr>storeFile = [''# aliases''], globalState = [(SYSTEM_ALIAS, []), (''work'', [gs])],
       effects = []\<rparr>
     = (NothingToDo,
        \<lparr>storeFile = [''# aliases''], globalState = [(SYSTEM_ALIAS, []), (''work'', [gs])],
          effects = []\<rparr>)"
proof -
  have c: "resolveAlias ''# aliases'' = None"
    by code_simp
  show ?thesis
    using deleteAllAlias_groups [of "\<lparr>storeFile = [nvLine],
          globalState = [(SYSTEM_ALIAS, [nv]), (''work'', [gs])], effects = []\<rparr>" "''Confirm''"]
      deleteAllAlias_groups [of "\<lparr>storeFile = [''# aliases''],
          globalState = [(SYSTEM_ALIAS, []), (''work'', [gs])], effects = []\<rparr>" "''Confirm''"]
    by (simp add: getAliases_def map_filter_def c resolveAlias_nvLine keys_def)
qed

section \<open>Sorting a group\<close>












end
